theory Spec2Isabelle
  imports Complex_Main "HOL-Library.Char_ord" "HOL-Library.List_Lexorder" "HOL-Library.AList"
    "HOL-Library.Multiset"
begin

section \<open>JavaScript values\<close>

text \<open>
  Numbers that come out of \<^verbatim>\<open>parseInt\<close> and \<^verbatim>\<open>parseFloat\<close> are IEEE doubles:
  a finite value, one of the two infinities, or NaN. Finite doubles are modelled by
  the reals they denote (rounding is not modelled; \<^verbatim>\<open>-0\<close> and \<^verbatim>\<open>+0\<close> are both
  \<open>Finite 0\<close>, and JavaScript's \<^verbatim>\<open>===\<close> and \<^verbatim>\<open><\<close> do not tell them apart either).
\<close>

datatype jsnum = NaN | MinusInfinity | Finite real | PlusInfinity

text \<open>\<^verbatim>\<open>isNaN(x)\<close> on a number.\<close>

fun isNaN :: "jsnum \<Rightarrow> bool" where
  "isNaN NaN = True"
| "isNaN _ = False"

text \<open>\<^verbatim>\<open>a < b\<close>, \<^verbatim>\<open>a <= b\<close>, \<^verbatim>\<open>a > b\<close> on numbers: false as soon as one side is NaN.\<close>

fun js_lt :: "jsnum \<Rightarrow> jsnum \<Rightarrow> bool" where
  "js_lt NaN _ = False"
| "js_lt _ NaN = False"
| "js_lt (Finite a) (Finite b) = (a < b)"
| "js_lt MinusInfinity MinusInfinity = False"
| "js_lt MinusInfinity _ = True"
| "js_lt _ MinusInfinity = False"
| "js_lt PlusInfinity _ = False"
| "js_lt _ PlusInfinity = True"

fun js_le :: "jsnum \<Rightarrow> jsnum \<Rightarrow> bool" where
  "js_le NaN _ = False"
| "js_le _ NaN = False"
| "js_le a b = (a = b \<or> js_lt a b)"

definition js_gt :: "jsnum \<Rightarrow> jsnum \<Rightarrow> bool" where
  "js_gt a b = js_lt b a"

text \<open>\<^verbatim>\<open>a !== b\<close> on numbers: NaN differs from everything, itself included.\<close>

fun js_strict_neq :: "jsnum \<Rightarrow> jsnum \<Rightarrow> bool" where
  "js_strict_neq NaN _ = True"
| "js_strict_neq _ NaN = True"
| "js_strict_neq a b = (a \<noteq> b)"

text \<open>\<^verbatim>\<open>a + b\<close> and \<^verbatim>\<open>a - b\<close> on numbers.\<close>

fun js_neg :: "jsnum \<Rightarrow> jsnum" where
  "js_neg NaN = NaN"
| "js_neg MinusInfinity = PlusInfinity"
| "js_neg (Finite a) = Finite (- a)"
| "js_neg PlusInfinity = MinusInfinity"

fun js_add :: "jsnum \<Rightarrow> jsnum \<Rightarrow> jsnum" where
  "js_add NaN _ = NaN"
| "js_add _ NaN = NaN"
| "js_add (Finite a) (Finite b) = Finite (a + b)"
| "js_add PlusInfinity MinusInfinity = NaN"
| "js_add MinusInfinity PlusInfinity = NaN"
| "js_add PlusInfinity _ = PlusInfinity"
| "js_add MinusInfinity _ = MinusInfinity"
| "js_add _ PlusInfinity = PlusInfinity"
| "js_add _ MinusInfinity = MinusInfinity"

definition js_sub :: "jsnum \<Rightarrow> jsnum \<Rightarrow> jsnum" where
  "js_sub a b = js_add a (js_neg b)"

text \<open>
  The values a JSON body can hold, plus \<^verbatim>\<open>undefined\<close> for a property that is absent.
  An object is its list of properties; a property is read with \<open>getProp\<close>, which gives
  \<^verbatim>\<open>undefined\<close> on a missing key and on a primitive, as \<^verbatim>\<open>v.key\<close> does.
\<close>

datatype jsvalue =
    JUndefined
  | JNull
  | JBool bool
  | JNum real
  | JStr string
  | JArr "jsvalue list"
  | JObj "(string \<times> jsvalue) list"

fun truthy :: "jsvalue \<Rightarrow> bool" where
  "truthy JUndefined = False"
| "truthy JNull = False"
| "truthy (JBool b) = b"
| "truthy (JNum r) = (r \<noteq> 0)"
| "truthy (JStr s) = (s \<noteq> [])"
| "truthy (JArr _) = True"
| "truthy (JObj _) = True"

fun getProp :: "jsvalue \<Rightarrow> string \<Rightarrow> jsvalue" where
  "getProp (JObj kvs) k = (case map_of kvs k of Some v \<Rightarrow> v | None \<Rightarrow> JUndefined)"
| "getProp _ k = JUndefined"

section \<open>The shared cache (utils/cache)\<close>

text \<open>
  One \<^verbatim>\<open>NodeCache\<close> instance is shared by the services and the controller. It is
  modelled by the live entries a \<^verbatim>\<open>cache.get\<close> sees: the stored value and the TTL
  (in seconds) given to \<^verbatim>\<open>cache.set\<close>. The values stored in it are the token data
  of the auth service, descriptions (strings) of the controller and search results
  of the Wikipedia service. (The route handler also stores pollution results, under
  keys that none of the functions modelled here reads.)
\<close>

record wikiData =
  description :: string
  title :: string

datatype cache_value =
    TokenData jsvalue jsnum
  | Description string
  | WikiResult wikiData

type_synonym cache = "string \<rightharpoonup> (cache_value \<times> jsnum)"

definition cache_get :: "cache \<Rightarrow> string \<Rightarrow> cache_value option" where
  "cache_get c k = map_option fst (c k)"

definition cache_set :: "cache \<Rightarrow> string \<Rightarrow> cache_value \<Rightarrow> jsnum \<Rightarrow> cache" where
  "cache_set c k v ttl = c(k \<mapsto> (v, ttl))"

section \<open>services/auth.service.js\<close>

definition AUTH_TOKEN_CACHE_KEY :: string where
  "AUTH_TOKEN_CACHE_KEY = ''authToken''"

definition TOKEN_REFRESH_BUFFER :: real where
  "TOKEN_REFRESH_BUFFER = 60"

text \<open>
  What an \<^verbatim>\<open>axios\<close> request does: it rejects without a response (network
  failure), rejects with the response of a non-2xx status, or resolves with the body
  \<^verbatim>\<open>response.data\<close>. The login endpoint's body is an arbitrary JSON value.
\<close>

datatype 'a http_reply =
    NoResponse
  | ErrorStatus nat
  | Resolved 'a

text \<open>What is thrown inside the \<^verbatim>\<open>try\<close> block of \<^verbatim>\<open>getAuthToken\<close> (the two
  \<^verbatim>\<open>Error\<close>s of the checks, a TypeError, the rejection of \<^verbatim>\<open>axios\<close> with the status of its
  response if it has one), and the two \<^verbatim>\<open>Error\<close>s that its \<^verbatim>\<open>catch\<close> block throws to the
  caller.\<close>

datatype auth_error =
    NoValidTokenOrExpiry
  | InvalidExpiresIn
  | TypeError
  | AxiosError "nat option"
  | LoginFailedInvalidCredentials
  | FailedToObtainToken

text \<open>
  The body of the \<^verbatim>\<open>try\<close> block after the cache miss. \<open>parseInt10 v\<close> stands for
  \<^verbatim>\<open>parseInt(v, 10)\<close> and \<open>now\<close> for \<^verbatim>\<open>Date.now() / 1000\<close>. Destructuring
  \<^verbatim>\<open>response.data\<close> throws a TypeError when the body is \<^verbatim>\<open>null\<close> or absent.
\<close>

definition login_try ::
  "(jsvalue \<Rightarrow> jsnum) \<Rightarrow> real \<Rightarrow> jsvalue http_reply \<Rightarrow> cache \<Rightarrow> auth_error + (jsvalue \<times> cache)" where
  "login_try parseInt10 now reply c =
     (case reply of
        NoResponse \<Rightarrow> Inl (AxiosError None)
      | ErrorStatus st \<Rightarrow> Inl (AxiosError (Some st))
      | Resolved body \<Rightarrow>
          if body = JUndefined \<or> body = JNull then Inl TypeError
          else
            let token = getProp body ''token''; expiresIn = getProp body ''expiresIn'' in
            if \<not> truthy token \<or> expiresIn = JUndefined then Inl NoValidTokenOrExpiry
            else
              let expiresInSeconds = parseInt10 expiresIn in
              if isNaN expiresInSeconds \<or> js_le expiresInSeconds (Finite 0) then Inl InvalidExpiresIn
              else
                let cacheTTL = js_sub expiresInSeconds (Finite TOKEN_REFRESH_BUFFER);
                    tokenData = TokenData token (js_add (Finite now) expiresInSeconds) in
                if js_le cacheTTL (Finite 0)
                then Inr (token, cache_set c AUTH_TOKEN_CACHE_KEY tokenData (Finite 10))
                else Inr (token, cache_set c AUTH_TOKEN_CACHE_KEY tokenData cacheTTL))"

text \<open>The \<^verbatim>\<open>catch\<close> block: whatever was thrown inside \<^verbatim>\<open>try\<close> is replaced. Only an
  error that carries a response with status 401 gets its own message.\<close>

definition login_catch :: "auth_error \<Rightarrow> auth_error" where
  "login_catch e =
     (case e of
        AxiosError (Some st) \<Rightarrow> if st = 401 then LoginFailedInvalidCredentials else FailedToObtainToken
      | _ \<Rightarrow> FailedToObtainToken)"

text \<open>\<^verbatim>\<open>tokenData && tokenData.token && tokenData.expiresAt > now + TOKEN_REFRESH_BUFFER\<close>.
  A cached value that is not token data has no \<^verbatim>\<open>token\<close> property.\<close>

fun cached_token_valid :: "real \<Rightarrow> cache_value option \<Rightarrow> bool" where
  "cached_token_valid now (Some (TokenData token expiresAt)) =
     (truthy token \<and> js_gt expiresAt (Finite (now + TOKEN_REFRESH_BUFFER)))"
| "cached_token_valid now (Some (Description s)) = False"
| "cached_token_valid now (Some (WikiResult w)) = False"
| "cached_token_valid now None = False"

fun cached_token :: "cache_value option \<Rightarrow> jsvalue" where
  "cached_token (Some (TokenData token expiresAt)) = token"
| "cached_token _ = JUndefined"

text \<open>
  \<^verbatim>\<open>getAuthToken\<close>: the result is the token or the error thrown to the caller,
  together with the cache after the call. \<open>reply\<close> is what the login endpoint
  answers if it is asked.
\<close>

definition getAuthToken ::
  "(jsvalue \<Rightarrow> jsnum) \<Rightarrow> real \<Rightarrow> jsvalue http_reply \<Rightarrow> cache \<Rightarrow> (auth_error + jsvalue) \<times> cache" where
  "getAuthToken parseInt10 now reply c =
     (let tokenData = cache_get c AUTH_TOKEN_CACHE_KEY in
      if cached_token_valid now tokenData then (Inr (cached_token tokenData), c)
      else
        case login_try parseInt10 now reply c of
          Inr (token, c') \<Rightarrow> (Inr token, c')
        | Inl e \<Rightarrow> (Inl (login_catch e), c))"

section \<open>services/pollution.service.js\<close>

definition AVAILABLE_COUNTRIES :: "string list" where
  "AVAILABLE_COUNTRIES = [''PL'', ''DE'', ''ES'', ''FR'']"

text \<open>\<^verbatim>\<open>a * b\<close> on numbers.\<close>

fun js_mul :: "jsnum \<Rightarrow> jsnum \<Rightarrow> jsnum" where
  "js_mul NaN _ = NaN"
| "js_mul _ NaN = NaN"
| "js_mul (Finite a) (Finite b) = Finite (a * b)"
| "js_mul (Finite a) PlusInfinity =
     (if a = 0 then NaN else if 0 < a then PlusInfinity else MinusInfinity)"
| "js_mul (Finite a) MinusInfinity =
     (if a = 0 then NaN else if 0 < a then MinusInfinity else PlusInfinity)"
| "js_mul PlusInfinity (Finite b) =
     (if b = 0 then NaN else if 0 < b then PlusInfinity else MinusInfinity)"
| "js_mul MinusInfinity (Finite b) =
     (if b = 0 then NaN else if 0 < b then MinusInfinity else PlusInfinity)"
| "js_mul PlusInfinity PlusInfinity = PlusInfinity"
| "js_mul MinusInfinity MinusInfinity = PlusInfinity"
| "js_mul PlusInfinity MinusInfinity = MinusInfinity"
| "js_mul MinusInfinity PlusInfinity = MinusInfinity"

text \<open>
  A string is the list of its code units; a \<open>char\<close> is a code unit below 256.

  \<^verbatim>\<open>s.toUpperCase()\<close> and \<^verbatim>\<open>s.toLowerCase()\<close> as the aggregator and the filters of the
  description resolver use them, on country codes, keywords and fetched texts: the
  case mappings of the letters \<^verbatim>\<open>A\<close>..\<^verbatim>\<open>Z\<close> and \<^verbatim>\<open>a\<close>..\<^verbatim>\<open>z\<close>, which is what JavaScript
  does on ASCII strings. (The normalizer, whose results depend on the case of every
  letter of a name, takes the case mappings as parameters instead.)
\<close>

definition toUpperChar :: "char \<Rightarrow> char" where
  "toUpperChar c =
     (if CHR ''a'' \<le> c \<and> c \<le> CHR ''z'' then char_of (of_char c - (32::nat)) else c)"

definition toLowerChar :: "char \<Rightarrow> char" where
  "toLowerChar c =
     (if CHR ''A'' \<le> c \<and> c \<le> CHR ''Z'' then char_of (of_char c + (32::nat)) else c)"

definition toUpperCase :: "string \<Rightarrow> string" where
  "toUpperCase s = map toUpperChar s"

definition toLowerCase :: "string \<Rightarrow> string" where
  "toLowerCase s = map toLowerChar s"

text \<open>
  The body of the pollution endpoint, as the service reads it: \<^verbatim>\<open>meta\<close> is an object
  or absent, \<^verbatim>\<open>results\<close> an array of objects or absent (absent stands for every
  falsy value). \<^verbatim>\<open>meta.totalPages\<close> is a number; NaN stands for an absent one, since
  \<^verbatim>\<open>undefined || 0\<close> and \<^verbatim>\<open>undefined * limit\<close> are what NaN gives there.
\<close>

record pollutionMeta =
  totalPages :: jsnum

record pollutionBody =
  meta :: "pollutionMeta option"
  results :: "(string \<times> jsvalue) list list option"

record pollutionData =
  cities :: "(string \<times> jsvalue) list list"
  page :: real
  limit :: real
  total :: jsnum

datatype pollution_error = FailedToFetchPollutionData

text \<open>Default parameter values: the default is taken when the argument is
  \<^verbatim>\<open>undefined\<close>, that is, omitted.\<close>

definition withDefault :: "'a \<Rightarrow> 'a option \<Rightarrow> 'a" where
  "withDefault d arg = (case arg of None \<Rightarrow> d | Some v \<Rightarrow> v)"

text \<open>\<^verbatim>\<open>x || 0\<close> on a number.\<close>

definition orZero :: "jsnum \<Rightarrow> jsnum" where
  "orZero x = (if isNaN x \<or> x = Finite 0 then Finite 0 else x)"

text \<open>
  The callback mapped over \<^verbatim>\<open>countriesToQuery\<close>: the cities and the total of one
  country, or \<open>None\<close> when the promise rejects (the request fails, or destructuring
  an absent body or reading \<^verbatim>\<open>meta.totalPages\<close> of an absent \<^verbatim>\<open>meta\<close> throws).
  \<open>pollutionApi country page limit authToken\<close> is the answer of
  \<^verbatim>\<open>GET /pollution\<close>.
\<close>

definition fetchCountry ::
  "(string \<Rightarrow> real \<Rightarrow> real \<Rightarrow> jsvalue \<Rightarrow> pollutionBody option http_reply) \<Rightarrow>
   jsvalue \<Rightarrow> real \<Rightarrow> real \<Rightarrow> string \<Rightarrow> ((string \<times> jsvalue) list list \<times> jsnum) option" where
  "fetchCountry pollutionApi authToken pg lmt country =
     (if country \<notin> set AVAILABLE_COUNTRIES then Some ([], Finite 0)
      else
        case pollutionApi country pg lmt authToken of
          NoResponse \<Rightarrow> None
        | ErrorStatus st \<Rightarrow> None
        | Resolved None \<Rightarrow> None
        | Resolved (Some body) \<Rightarrow>
            (case results body of
               None \<Rightarrow>
                 (case meta body of
                    None \<Rightarrow> None
                  | Some m \<Rightarrow> Some ([], orZero (totalPages m)))
             | Some rs \<Rightarrow>
                 let citiesWithCountry = map (\<lambda>city. AList.update ''country'' (JStr country) city) rs in
                 (case meta body of
                    None \<Rightarrow> None
                  | Some m \<Rightarrow> Some (citiesWithCountry, js_mul (totalPages m) (Finite lmt)))))"

text \<open>\<^verbatim>\<open>Promise.all\<close>: the results in the order of the countries, or a rejection as soon
  as one promise rejects.\<close>

fun promiseAll :: "'a option list \<Rightarrow> 'a list option" where
  "promiseAll [] = Some []"
| "promiseAll (None # ps) = None"
| "promiseAll (Some r # ps) = map_option ((#) r) (promiseAll ps)"

text \<open>The \<^verbatim>\<open>forEach\<close> that concatenates the cities and adds up the totals.\<close>

fun aggregate ::
  "((string \<times> jsvalue) list list \<times> jsnum) list \<Rightarrow> (string \<times> jsvalue) list list \<times> jsnum \<Rightarrow>
   (string \<times> jsvalue) list list \<times> jsnum" where
  "aggregate [] acc = acc"
| "aggregate ((cs, t) # rest) (allCities, totalFromAPI) =
     aggregate rest (allCities @ cs, js_add totalFromAPI t)"

text \<open>
  \<^verbatim>\<open>fetchPollutionData(countryCode, page = 1, limit = 10)\<close>. An omitted argument is
  \<open>None\<close>. The first four arguments are those of \<open>getAuthToken\<close>; the cache is
  returned as that call leaves it.
\<close>

definition fetchPollutionData ::
  "(jsvalue \<Rightarrow> jsnum) \<Rightarrow> real \<Rightarrow> jsvalue http_reply \<Rightarrow> cache \<Rightarrow>
   (string \<Rightarrow> real \<Rightarrow> real \<Rightarrow> jsvalue \<Rightarrow> pollutionBody option http_reply) \<Rightarrow>
   string option \<Rightarrow> real option \<Rightarrow> real option \<Rightarrow> (pollution_error + pollutionData) \<times> cache" where
  "fetchPollutionData parseInt10 now loginReply c pollutionApi countryCode pageArg limitArg =
     (let pg = withDefault 1 pageArg; lmt = withDefault 10 limitArg in
      case getAuthToken parseInt10 now loginReply c of
        (Inl e, c') \<Rightarrow> (Inl FailedToFetchPollutionData, c')
      | (Inr authToken, c') \<Rightarrow>
          (let countriesToQuery =
                 (case countryCode of
                    None \<Rightarrow> AVAILABLE_COUNTRIES
                  | Some code \<Rightarrow> if code = [] then AVAILABLE_COUNTRIES else [toUpperCase code])
           in (case promiseAll (map (fetchCountry pollutionApi authToken pg lmt) countriesToQuery) of
                 None \<Rightarrow> (Inl FailedToFetchPollutionData, c')
               | Some resultsPerCountry \<Rightarrow>
                   (let (allCities, totalFromAPI) = aggregate resultsPerCountry ([], Finite 0)
                    in (Inr \<lparr>cities = allCities, page = pg, limit = lmt, total = totalFromAPI\<rparr>,
                        c')))))"

section \<open>services/wikipedia.service.js\<close>





section \<open>controllers/cities.controller.js\<close>

subsection \<open>String helpers\<close>

text \<open>\<^verbatim>\<open>s.includes(k)\<close>: \<open>k\<close> occurs in \<open>s\<close> as a substring.\<close>

fun startsWith :: "string \<Rightarrow> string \<Rightarrow> bool" where
  "startsWith s [] = True"
| "startsWith [] (k # ks) = False"
| "startsWith (c # cs) (k # ks) = (c = k \<and> startsWith cs ks)"

fun includesStr :: "string \<Rightarrow> string \<Rightarrow> bool" where
  "includesStr [] k = (k = [])"
| "includesStr (c # cs) k = (startsWith (c # cs) k \<or> includesStr cs k)"

text \<open>The code units below 256 that \<^verbatim>\<open>\s\<close> and \<^verbatim>\<open>trim\<close> treat as white space (tab,
  line feed, vertical tab, form feed, carriage return, space, no-break space), and
  those that are line terminators, which \<^verbatim>\<open>.\<close> does not match (line feed, carriage
  return).\<close>

definition isSpace :: "char \<Rightarrow> bool" where
  "isSpace c =
     (c \<in> {CHR 0x09, CHR 0x0A, CHR 0x0B, CHR 0x0C, CHR 0x0D, CHR '' '', CHR 0xA0})"

definition isLineTerminator :: "char \<Rightarrow> bool" where
  "isLineTerminator c = (c \<in> {CHR 0x0A, CHR 0x0D})"

definition isDigit :: "char \<Rightarrow> bool" where
  "isDigit c = (CHR ''0'' \<le> c \<and> c \<le> CHR ''9'')"

definition trim :: "string \<Rightarrow> string" where
  "trim s = rev (dropWhile isSpace (rev (dropWhile isSpace s)))"

text \<open>\<^verbatim>\<open>s.split(' ')\<close> and \<^verbatim>\<open>ws.join(' ')\<close>.\<close>

fun splitSpace :: "string \<Rightarrow> string list" where
  "splitSpace [] = [[]]"
| "splitSpace (c # cs) =
     (if c = CHR '' '' then [] # splitSpace cs
      else (case splitSpace cs of
              [] \<Rightarrow> [[c]]
            | w # ws \<Rightarrow> (c # w) # ws))"

fun joinSpace :: "string list \<Rightarrow> string" where
  "joinSpace [] = []"
| "joinSpace [w] = w"
| "joinSpace (w # v # ws) = w @ CHR '' '' # joinSpace (v # ws)"

subsection \<open>normalizeCityData\<close>

text \<open>
  \<^verbatim>\<open>/\s*\(.+\)\s*/\<close> tried at the start of \<open>s\<close>: the length of the match, if there is
  one. The white space before the parenthesis is taken greedily; \<^verbatim>\<open>.+\<close> runs to the
  end of the line and backs off to the last \<^verbatim>\<open>)\<close> that leaves it at least one
  character; the white space after it is taken greedily.
\<close>

definition lastCloseParen :: "string \<Rightarrow> nat option" where
  "lastCloseParen line =
     (case filter (\<lambda>k. line ! k = CHR '')'') [1 ..< length line] of
        [] \<Rightarrow> None
      | k # ks \<Rightarrow> Some (last (k # ks)))"

definition matchParenthesized :: "string \<Rightarrow> nat option" where
  "matchParenthesized s =
     (let leading = takeWhile isSpace s in
      case dropWhile isSpace s of
        [] \<Rightarrow> None
      | c # rest \<Rightarrow>
          if c \<noteq> CHR ''('' then None
          else
            (case lastCloseParen (takeWhile (\<lambda>x. \<not> isLineTerminator x) rest) of
               None \<Rightarrow> None
             | Some k \<Rightarrow>
                 Some (length leading + 1 + Suc k + length (takeWhile isSpace (drop (Suc k) rest)))))"

text \<open>\<^verbatim>\<open>s.replace(/\s*\(.+\)\s*/g, '')\<close>: the matches are looked for from left to
  right, each search starting where the previous match ended.\<close>

function removeParenthesized :: "string \<Rightarrow> string" where
  "removeParenthesized [] = []"
| "removeParenthesized (c # cs) =
     (case matchParenthesized (c # cs) of
        None \<Rightarrow> c # removeParenthesized cs
      | Some n \<Rightarrow> removeParenthesized (drop (n - 1) cs))"
  by pat_completeness auto
termination
  by (relation "measure length") (auto simp: less_Suc_eq_le)

text \<open>
  \<^verbatim>\<open>word.charAt(0).toUpperCase() + word.slice(1).toLowerCase()\<close>, with the empty
  word mapped to itself. \<open>upperCase\<close> and \<open>lowerCase\<close> stand for JavaScript's
  \<^verbatim>\<open>toUpperCase\<close> and \<^verbatim>\<open>toLowerCase\<close> on strings: the upper case of one code unit
  can be several (of \<^verbatim>\<open>U+00DF\<close> it is \<^verbatim>\<open>SS\<close>).
\<close>

fun capitalize :: "(string \<Rightarrow> string) \<Rightarrow> (string \<Rightarrow> string) \<Rightarrow> string \<Rightarrow> string" where
  "capitalize upperCase lowerCase [] = []"
| "capitalize upperCase lowerCase (c # cs) = upperCase [c] @ lowerCase cs"

text \<open>\<^verbatim>\<open>s.replace(/\s+/g, ' ')\<close>.\<close>

function collapseSpaces :: "string \<Rightarrow> string" where
  "collapseSpaces [] = []"
| "collapseSpaces (c # cs) =
     (if isSpace c then CHR '' '' # collapseSpaces (dropWhile isSpace cs)
      else c # collapseSpaces cs)"
  by pat_completeness auto
termination
  by (relation "measure length") (auto simp: less_Suc_eq_le length_dropWhile_le)

text \<open>\<^verbatim>\<open>/^[0-9]+$/.test(s)\<close>.\<close>

definition allDigits :: "string \<Rightarrow> bool" where
  "allDigits s = (s \<noteq> [] \<and> list_all isDigit s)"

text \<open>The steps that derive \<^verbatim>\<open>lookupName\<close> from \<^verbatim>\<open>originalName\<close>.\<close>

definition deriveLookupName :: "(string \<Rightarrow> string) \<Rightarrow> (string \<Rightarrow> string) \<Rightarrow> string \<Rightarrow> string" where
  "deriveLookupName upperCase lowerCase originalName =
     (let lookupName1 = trim (removeParenthesized originalName);
          lookupName2 =
            trim (joinSpace (map (capitalize upperCase lowerCase) (splitSpace lookupName1)))
      in trim (collapseSpaces lookupName2))"

text \<open>
  \<^verbatim>\<open>parseFloat(v)\<close> first converts \<open>v\<close> to a string, and that conversion can throw. An
  object is converted by its \<^verbatim>\<open>toString\<close> method and then its \<^verbatim>\<open>valueOf\<close> method, if
  they are functions and give a primitive value. An object that comes from JSON
  inherits both: unless it has a property \<^verbatim>\<open>toString\<close> of its own, the inherited
  \<^verbatim>\<open>toString\<close> gives \<^verbatim>\<open>[object Object]\<close>; if it has one, that property is not a
  function, \<^verbatim>\<open>valueOf\<close> (its own, not a function, or the inherited one, which gives
  the object back) yields no primitive value, and a TypeError is thrown. An array is
  converted by joining the strings of its elements (\<^verbatim>\<open>null\<close> and \<^verbatim>\<open>undefined\<close> give
  the empty string), so it throws when one of them does.
\<close>

datatype js_exception = JsTypeError

fun toStringThrows :: "jsvalue \<Rightarrow> bool" where
  "toStringThrows (JObj kvs) = (''toString'' \<in> fst ` set kvs)"
| "toStringThrows (JArr xs) = (\<exists>x\<in>set xs. toStringThrows x)"
| "toStringThrows _ = False"

text \<open>\<^verbatim>\<open>parseFloat(v)\<close>. \<open>parseNumber v\<close> stands for the number that \<^verbatim>\<open>parseFloat\<close> reads
  off the string of \<open>v\<close> when the conversion to a string succeeds.\<close>

definition parseFloat :: "(jsvalue \<Rightarrow> jsnum) \<Rightarrow> jsvalue \<Rightarrow> js_exception + jsnum" where
  "parseFloat parseNumber v =
     (if toStringThrows v then Inl JsTypeError else Inr (parseNumber v))"

record normalizedCity =
  originalName :: string
  lookupName :: string
  country :: string
  pollution :: jsnum

text \<open>
  \<^verbatim>\<open>normalizeCityData(data)\<close>: \<open>Inr None\<close> is the return of \<^verbatim>\<open>null\<close>, \<open>Inr (Some r)\<close>
  the return of the object \<open>r\<close>, \<open>Inl e\<close> the exception \<open>e\<close> leaving the function,
  which has no \<^verbatim>\<open>try\<close>. The call of \<^verbatim>\<open>parseFloat\<close> is its only operation that can
  throw on a JSON value.
\<close>

definition normalizeCityData ::
  "(string \<Rightarrow> string) \<Rightarrow> (string \<Rightarrow> string) \<Rightarrow> (jsvalue \<Rightarrow> jsnum) \<Rightarrow> jsvalue \<Rightarrow>
   js_exception + normalizedCity option" where
  "normalizeCityData upperCase lowerCase parseNumber data =
     (if \<not> truthy data then Inr None
      else
        case getProp data ''name'' of
          JStr nm \<Rightarrow>
            if trim nm = [] then Inr None
            else
              (case getProp data ''country'' of
                 JStr ctry \<Rightarrow>
                   if trim ctry = [] then Inr None
                   else
                     (case parseFloat parseNumber (getProp data ''pollution'') of
                        Inl e \<Rightarrow> Inl e
                      | Inr pollutionValue \<Rightarrow>
                          if isNaN pollutionValue \<or> js_lt pollutionValue (Finite 0) then Inr None
                          else
                            (let origName = trim nm;
                                 lookup = deriveLookupName upperCase lowerCase origName in
                             if lookup = [] \<or> allDigits lookup \<or> length lookup \<le> 1
                             then Inr None
                             else Inr (Some \<lparr>originalName = origName, lookupName = lookup,
                                              country = trim ctry,
                                              pollution = pollutionValue\<rparr>)))
               | _ \<Rightarrow> Inr None)
        | _ \<Rightarrow> Inr None)"

subsection \<open>getWikipediaDescription\<close>


definition countryNames :: "(string \<times> string list) list" where
  "countryNames =
     [(''PL'', [''Poland'', ''Polish'']),
      (''DE'', [''Germany'', ''German'']),
      (''ES'', [''Spain'', ''Spanish'']),
      (''FR'', [''France'', ''French''])]"

text \<open>\<^verbatim>\<open>(countryNames[countryName.toUpperCase()] || []).map(term => term.toLowerCase())\<close>.\<close>

definition lowerCountryTerms :: "string \<Rightarrow> string list" where
  "lowerCountryTerms countryName =
     map toLowerCase
       (case map_of countryNames (toUpperCase countryName) of
          None \<Rightarrow> []
        | Some terms \<Rightarrow> terms)"

definition strongNegativeKeywords :: "string list" where
  "strongNegativeKeywords =
     [''may refer to:'', ''disambiguation page'', ''film'', ''album'', ''number'', ''symbol'',
      ''species'', ''river'', ''mountain range'', ''historical region'', ''concept'', ''theory'',
      ''organization'', ''company'', ''product'', ''mathematical'', ''scientific'', ''list of'',
      ''is a character in'', ''is a fictional'', ''is an abstract'', ''is a type of'', ''refers to'',
      ''is a genus of'', ''is a surname'', ''is a given name'', ''is a song'', ''is an episode'',
      ''is a novel by'', ''is a play by'', ''is a television series'', ''is a video game'',
      ''is a computer program'', ''is an acronym for'', ''is a chemical element'', ''is a unit of'',
      ''dictator'', ''tank series'', ''medicine'', ''monitoring'', ''political party'',
      ''streaming service'', ''election'', ''polling'',
      ''aircraft'', ''military'', ''weapon'', ''vehicle'', ''disease'', ''condition'',
      ''medical parameter'', ''observation of'', ''historical figure'',
      ''fictional character'', ''fictional place'', ''fictional entity'', ''corporate entity'',
      ''software'', ''platform'', ''service'',
      ''industrial region'', ''power plant'', ''monitoring station'', ''industrial zone'',
      ''unknown point'',
      ''facility'', ''station'', ''complex'', ''area (disambiguation)'', ''site (disambiguation)'',
      ''point (disambiguation)'',
      ''alpha (disambiguation)'', ''b (disambiguation)'', ''c (disambiguation)'',
      ''d (disambiguation)'', ''e (disambiguation)'',
      ''number (disambiguation)'', ''number theory'', ''mathematical constant'',
      ''mathematical concept'',
      ''medical condition'', ''medical device'', ''medical procedure'', ''medical treatment'',
      ''medical system'',
      ''military unit'', ''military base'', ''military operation'', ''military vehicle'',
      ''military aircraft'',
      ''political party'', ''political movement'', ''political organization'', ''political system'',
      ''political theory'',
      ''streaming service'', ''television series'', ''video game'', ''software platform'',
      ''software service'',
      ''historical event'', ''historical period'', ''historical figure'', ''historical site'',
      ''geological feature'', ''body of water'', ''mountain range'', ''natural feature'']"

text \<open>\<^verbatim>\<open>strongNegativeKeywords.some(keyword => lower.includes(keyword))\<close>, used for the
  description (\<^verbatim>\<open>isStrongNegativeMatch\<close>) and for the title
  (\<^verbatim>\<open>isTitleStrongNegativeMatch\<close>).\<close>

definition isStrongNegativeMatch :: "string \<Rightarrow> bool" where
  "isStrongNegativeMatch lower = list_ex (\<lambda>keyword. includesStr lower keyword) strongNegativeKeywords"

definition isCountryRelevant :: "string \<Rightarrow> string \<Rightarrow> string \<Rightarrow> bool" where
  "isCountryRelevant countryName lowerDesc lowerTitle =
     (list_ex (\<lambda>term. includesStr lowerDesc term \<or> includesStr lowerTitle term)
        (lowerCountryTerms countryName)
      \<or> includesStr lowerDesc (toLowerCase countryName)
      \<or> includesStr lowerTitle (toLowerCase countryName))"

definition isContentRelevantToQuery :: "string \<Rightarrow> string \<Rightarrow> string \<Rightarrow> string \<Rightarrow> bool" where
  "isContentRelevantToQuery origName lookup lowerDesc lowerTitle =
     ((includesStr lowerDesc (toLowerCase origName) \<or> includesStr lowerTitle (toLowerCase origName))
      \<or> (includesStr lowerDesc (toLowerCase lookup) \<or> includesStr lowerTitle (toLowerCase lookup)))"

text \<open>The final decision on a fetched description and title (the condition of the
  \<^verbatim>\<open>if\<close> that caches and returns the description).\<close>

definition accepted :: "string \<Rightarrow> string \<Rightarrow> string \<Rightarrow> wikiData \<Rightarrow> bool" where
  "accepted origName countryName lookup w =
     (let lowerDesc = toLowerCase (description w);
          lowerTitle = toLowerCase (title w)
      in isCountryRelevant countryName lowerDesc lowerTitle
         \<and> isContentRelevantToQuery origName lookup lowerDesc lowerTitle
         \<and> \<not> isStrongNegativeMatch lowerDesc
         \<and> \<not> isStrongNegativeMatch lowerTitle)"




subsection \<open>Sorting the enriched cities\<close>

text \<open>The objects built from the candidates that got a description; their properties
  \<^verbatim>\<open>country\<close>, \<^verbatim>\<open>pollution\<close> and \<^verbatim>\<open>description\<close> are the fields \<open>cityCountry\<close>,
  \<open>cityPollution\<close> and \<open>cityDescription\<close>.\<close>

record enrichedCity =
  name :: string
  cityCountry :: string
  cityPollution :: jsnum
  cityDescription :: string

text \<open>
  The comparison function given to \<^verbatim>\<open>sort\<close>. \<open>localeCompare a b\<close> stands for
  \<^verbatim>\<open>a.localeCompare(b)\<close>, which depends on the collation of the host and is a
  parameter here.
\<close>

definition compareCities :: "(string \<Rightarrow> string \<Rightarrow> int) \<Rightarrow> enrichedCity \<Rightarrow> enrichedCity \<Rightarrow> jsnum" where
  "compareCities localeCompare a b =
     (if js_strict_neq (cityPollution b) (cityPollution a)
      then js_sub (cityPollution b) (cityPollution a)
      else Finite (real_of_int (localeCompare (name a) (name b))))"

text \<open>
  \<^verbatim>\<open>Array.prototype.sort\<close> with a comparison function is a stable sort: \<open>a\<close> stays
  before \<open>b\<close> unless the comparison of \<open>a\<close> with \<open>b\<close> is positive (a NaN counts as
  zero). With a consistent comparison function every stable sort gives the same
  list; it is modelled by insertion.
\<close>

fun insertBy :: "('a \<Rightarrow> 'a \<Rightarrow> jsnum) \<Rightarrow> 'a \<Rightarrow> 'a list \<Rightarrow> 'a list" where
  "insertBy cmp x [] = [x]"
| "insertBy cmp x (y # ys) =
     (if js_gt (cmp x y) (Finite 0) then y # insertBy cmp x ys else x # y # ys)"

fun sortBy :: "('a \<Rightarrow> 'a \<Rightarrow> jsnum) \<Rightarrow> 'a list \<Rightarrow> 'a list" where
  "sortBy cmp [] = []"
| "sortBy cmp (x # xs) = insertBy cmp x (sortBy cmp xs)"

definition sortCities :: "(string \<Rightarrow> string \<Rightarrow> int) \<Rightarrow> enrichedCity list \<Rightarrow> enrichedCity list" where
  "sortCities localeCompare citiesWithDescriptions =
     sortBy (compareCities localeCompare) citiesWithDescriptions"

text \<open>
  \<^verbatim>\<open>a.localeCompare(b)\<close> on names made of the letters \<^verbatim>\<open>A\<close>..\<^verbatim>\<open>Z\<close> and \<^verbatim>\<open>a\<close>..\<^verbatim>\<open>z\<close>, in
  the default collation of Node: the names are compared alphabetically without
  regard to case, and names with the same letters by the case of the first letter
  in which they differ, lower case first. (Of two such letters the lower case one
  has the greater code unit.)
\<close>

definition alphabeticCompare :: "string \<Rightarrow> string \<Rightarrow> int" where
  "alphabeticCompare a b =
     (if toLowerCase a < toLowerCase b then - 1
      else if toLowerCase b < toLowerCase a then 1
      else if a = b then 0
      else if b < a then - 1
      else 1)"

section \<open>Notions used in the statements\<close>

text \<open>
  The order the sorted list is claimed to have: \<open>a\<close> may stand before \<open>b\<close> when its
  pollution is greater, or equal with a name that does not compare after that of \<open>b\<close>.
\<close>

definition cityBefore :: "(string \<Rightarrow> string \<Rightarrow> int) \<Rightarrow> enrichedCity \<Rightarrow> enrichedCity \<Rightarrow> bool" where
  "cityBefore localeCompare a b =
     (js_gt (cityPollution a) (cityPollution b)
      \<or> (cityPollution a = cityPollution b \<and> localeCompare (name a) (name b) \<le> 0))"

text \<open>What \<^verbatim>\<open>sort\<close> requires of a comparison of names, on the names \<open>N\<close> that occur:
  a name that compares after another does not also compare before it, and comparing
  not-after is transitive.\<close>

definition consistentOn :: "(string \<Rightarrow> string \<Rightarrow> int) \<Rightarrow> string set \<Rightarrow> bool" where
  "consistentOn localeCompare N =
     ((\<forall>a\<in>N. \<forall>b\<in>N. 0 < localeCompare a b \<longrightarrow> localeCompare b a \<le> 0)
      \<and> (\<forall>a\<in>N. \<forall>b\<in>N. \<forall>c\<in>N.
            localeCompare a b \<le> 0 \<and> localeCompare b c \<le> 0 \<longrightarrow> localeCompare a c \<le> 0))"

text \<open>The cities \<^verbatim>\<open>{A,5}\<close>, \<^verbatim>\<open>{B,9}\<close>, \<^verbatim>\<open>{C,9}\<close> of the specification's example.\<close>

definition exampleCities :: "enrichedCity list" where
  "exampleCities =
     [\<lparr>name = ''A'', cityCountry = ''PL'', cityPollution = Finite 5, cityDescription = ''a''\<rparr>,
      \<lparr>name = ''B'', cityCountry = ''PL'', cityPollution = Finite 9, cityDescription = ''b''\<rparr>,
      \<lparr>name = ''C'', cityCountry = ''PL'', cityPollution = Finite 9, cityDescription = ''c''\<rparr>]"






text \<open>
  For the normalizer: a string is blank when it has nothing but white space; a
  property of a raw record is missing or blank when it is not a string, or a blank
  string; \<open>asString\<close> reads a property that is a string; a parsed number is a
  non-negative float when it is not NaN and not below zero; a string is all digits
  when it is not empty and made of the digits \<^verbatim>\<open>0\<close> to \<^verbatim>\<open>9\<close>.
\<close>

definition blank :: "string \<Rightarrow> bool" where
  "blank s = (\<forall>c\<in>set s. isSpace c)"

definition missingOrBlank :: "jsvalue \<Rightarrow> bool" where
  "missingOrBlank v = (case v of JStr s \<Rightarrow> blank s | _ \<Rightarrow> True)"

definition asString :: "jsvalue \<Rightarrow> string" where
  "asString v = (case v of JStr s \<Rightarrow> s | _ \<Rightarrow> [])"

definition nonNegativeFloat :: "jsnum \<Rightarrow> bool" where
  "nonNegativeFloat x = (\<not> isNaN x \<and> \<not> js_lt x (Finite 0))"

definition digitsOnly :: "string \<Rightarrow> bool" where
  "digitsOnly s = (s \<noteq> [] \<and> set s \<subseteq> set ''0123456789'')"











text \<open>The comparison of names by code units, that is, the lexicographic comparison of
  the strings.\<close>

definition codeUnitCompare :: "string \<Rightarrow> string \<Rightarrow> int" where
  "codeUnitCompare a b = (if a < b then - 1 else if a = b then 0 else 1)"

text \<open>Two cities with the same pollution whose names differ in case.\<close>

definition tiedCities :: "enrichedCity list" where
  "tiedCities =
     [\<lparr>name = ''Bb'', cityCountry = ''PL'', cityPollution = Finite 9, cityDescription = ''b''\<rparr>,
      \<lparr>name = ''aa'', cityCountry = ''PL'', cityPollution = Finite 9, cityDescription = ''a''\<rparr>]"

text \<open>
  The parameters at which the examples are evaluated. \<^verbatim>\<open>parseInt\<close> and \<^verbatim>\<open>parseFloat\<close>
  give a number back as it is (the examples pass them integers and \<^verbatim>\<open>42.5\<close>), and
  \<^verbatim>\<open>parseFloat\<close> reads the string \<^verbatim>\<open>"42.5"\<close>; on the other values they are NaN, which
  is what JavaScript gives for an object (its string is \<^verbatim>\<open>[object Object]\<close>) and for
  \<^verbatim>\<open>null\<close>, \<^verbatim>\<open>undefined\<close> and the booleans; the examples use no other string. The login
  endpoint of the examples answers with a token that expires in an hour, and the
  pollution endpoint answers every request with the same body.
\<close>

definition exampleParseInt :: "jsvalue \<Rightarrow> jsnum" where
  "exampleParseInt v = (case v of JNum r \<Rightarrow> Finite r | _ \<Rightarrow> NaN)"

definition exampleParseFloat :: "jsvalue \<Rightarrow> jsnum" where
  "exampleParseFloat v =
     (case v of
        JNum r \<Rightarrow> Finite r
      | JStr s \<Rightarrow> if s = ''42.5'' then Finite 42.5 else NaN
      | _ \<Rightarrow> NaN)"

definition exampleLogin :: "jsvalue http_reply" where
  "exampleLogin = Resolved (JObj [(''token'', JStr ''abc''), (''expiresIn'', JNum 3600)])"

definition constantApi ::
  "pollutionBody \<Rightarrow> string \<Rightarrow> real \<Rightarrow> real \<Rightarrow> jsvalue \<Rightarrow> pollutionBody option http_reply" where
  "constantApi body code pg lmt authToken = Resolved (Some body)"

text \<open>
  JavaScript's case mappings on the code units below 256. Lower-casing maps
  \<^verbatim>\<open>A\<close>..\<^verbatim>\<open>Z\<close> and \<^verbatim>\<open>U+00C0\<close>..\<^verbatim>\<open>U+00DE\<close> (but not the multiplication sign \<^verbatim>\<open>U+00D7\<close>) to
  the code unit 32 above. Upper-casing maps \<^verbatim>\<open>a\<close>..\<^verbatim>\<open>z\<close> and \<^verbatim>\<open>U+00E0\<close>..\<^verbatim>\<open>U+00FE\<close> (but
  not the division sign \<^verbatim>\<open>U+00F7\<close>) to the code unit 32 below, and \<^verbatim>\<open>U+00DF\<close> to
  \<^verbatim>\<open>SS\<close>. The upper case of \<^verbatim>\<open>U+00B5\<close> and of \<^verbatim>\<open>U+00FF\<close> is not below 256: these two
  are left as they are here, and the examples do not use them.
\<close>

definition latin1LowerChar :: "char \<Rightarrow> char" where
  "latin1LowerChar c =
     (if (CHR ''A'' \<le> c \<and> c \<le> CHR ''Z'') \<or> (CHR 0xC0 \<le> c \<and> c \<le> CHR 0xDE \<and> c \<noteq> CHR 0xD7)
      then char_of (of_char c + (32::nat)) else c)"

definition latin1LowerCase :: "string \<Rightarrow> string" where
  "latin1LowerCase s = map latin1LowerChar s"

definition latin1UpperChars :: "char \<Rightarrow> string" where
  "latin1UpperChars c =
     (if c = CHR 0xDF then ''SS''
      else if (CHR ''a'' \<le> c \<and> c \<le> CHR ''z'') \<or> (CHR 0xE0 \<le> c \<and> c \<le> CHR 0xFE \<and> c \<noteq> CHR 0xF7)
      then [char_of (of_char c - (32::nat))] else [c])"

definition latin1UpperCase :: "string \<Rightarrow> string" where
  "latin1UpperCase s = concat (map latin1UpperChars s)"

section \<open>Properties of the authenticator\<close>

text \<open>A login that succeeds comes from a resolved request whose body carries a truthy
  token and an expiry that parses to a positive number; the cache then holds the new
  token data under the token key.\<close>

lemma login_try_Inr:
  assumes "login_try parseInt10 now reply c = Inr (token, c')"
  shows "\<exists>body. reply = Resolved body \<and> token = getProp body ''token'' \<and> truthy token \<and>
           \<not> isNaN (parseInt10 (getProp body ''expiresIn'')) \<and>
           \<not> js_le (parseInt10 (getProp body ''expiresIn'')) (Finite 0) \<and>
           c' = cache_set c AUTH_TOKEN_CACHE_KEY
                  (TokenData token (js_add (Finite now) (parseInt10 (getProp body ''expiresIn''))))
                  (if js_le (js_sub (parseInt10 (getProp body ''expiresIn'')) (Finite TOKEN_REFRESH_BUFFER)) (Finite 0)
                   then Finite 10
                   else js_sub (parseInt10 (getProp body ''expiresIn'')) (Finite TOKEN_REFRESH_BUFFER))"
  using assms
  by (cases reply) (auto simp: login_try_def Let_def split: if_splits)

lemma positive_minus_buffer:
  assumes "\<not> isNaN e" and "\<not> js_le e (Finite 0)" and "\<not> js_le (js_sub e (Finite b)) (Finite 0)"
  shows "js_gt (js_sub e (Finite b)) (Finite 0)"
  using assms by (cases e) (auto simp: js_gt_def js_sub_def)

text \<open>
  Claim C8. On every successful login (the cached token is absent or no longer valid,
  and \<open>getAuthToken\<close> returns a token), the token is stored with a TTL equal to the
  reported expiry minus the 60 second buffer, and with the fixed TTL of 10 seconds
  whenever that difference is not positive; the stored TTL is positive in both cases.
\<close>

theorem getAuthToken_login_ttl:
  assumes miss: "\<not> cached_token_valid now (cache_get c AUTH_TOKEN_CACHE_KEY)"
    and ok: "getAuthToken parseInt10 now reply c = (Inr token, c')"
  shows "\<exists>body expiresInSeconds ttl.
           reply = Resolved body \<and>
           expiresInSeconds = parseInt10 (getProp body ''expiresIn'') \<and>
           c' AUTH_TOKEN_CACHE_KEY = Some (TokenData token (js_add (Finite now) expiresInSeconds), ttl) \<and>
           ttl = (if js_le (js_sub expiresInSeconds (Finite 60)) (Finite 0) then Finite 10
                  else js_sub expiresInSeconds (Finite 60)) \<and>
           js_gt ttl (Finite 0)"
proof -
  from miss ok have "login_try parseInt10 now reply c = Inr (token, c')"
    by (auto simp: getAuthToken_def Let_def split: sum.splits)
  from login_try_Inr [OF this] obtain body where
    b: "reply = Resolved body" "\<not> isNaN (parseInt10 (getProp body ''expiresIn''))"
       "\<not> js_le (parseInt10 (getProp body ''expiresIn'')) (Finite 0)"
       "c' = cache_set c AUTH_TOKEN_CACHE_KEY
                  (TokenData token (js_add (Finite now) (parseInt10 (getProp body ''expiresIn''))))
                  (if js_le (js_sub (parseInt10 (getProp body ''expiresIn'')) (Finite TOKEN_REFRESH_BUFFER)) (Finite 0)
                   then Finite 10
                   else js_sub (parseInt10 (getProp body ''expiresIn'')) (Finite TOKEN_REFRESH_BUFFER))"
    by blast
  define e where "e = parseInt10 (getProp body ''expiresIn'')"
  define ttl where "ttl = (if js_le (js_sub e (Finite 60)) (Finite 0) then Finite 10
                           else js_sub e (Finite 60))"
  have pos: "js_gt ttl (Finite 0)"
  proof (cases "js_le (js_sub e (Finite 60)) (Finite 0)")
    case True
    then show ?thesis by (simp add: ttl_def js_gt_def)
  next
    case False
    with positive_minus_buffer [of e 60] b(2) b(3) show ?thesis
      by (simp add: ttl_def e_def)
  qed
  have stored: "c' AUTH_TOKEN_CACHE_KEY = Some (TokenData token (js_add (Finite now) e), ttl)"
    using b(4) by (simp add: cache_set_def TOKEN_REFRESH_BUFFER_def e_def ttl_def)
  from b(1) stored pos show ?thesis
    unfolding e_def ttl_def by blast
qed

text \<open>With \<^verbatim>\<open>expiresIn = 30\<close> the difference is \<open>-30\<close> and the TTL stored is 10.\<close>

theorem getAuthToken_login_ttl_witness:
  "snd (getAuthToken exampleParseInt 1000
          (Resolved (JObj [(''token'', JStr ''abc''), (''expiresIn'', JNum 30)])) Map.empty)
     AUTH_TOKEN_CACHE_KEY = Some (TokenData (JStr ''abc'') (Finite 1030), Finite 10)"
proof -
  let ?reply = "Resolved (JObj [(''token'', JStr ''abc''), (''expiresIn'', JNum 30)])"
  let ?c' = "snd (getAuthToken exampleParseInt 1000 ?reply Map.empty)"
  have miss: "\<not> cached_token_valid 1000 (cache_get Map.empty AUTH_TOKEN_CACHE_KEY)"
    by (simp add: cache_get_def)
  have ok: "getAuthToken exampleParseInt 1000 ?reply Map.empty = (Inr (JStr ''abc''), ?c')"
    by (simp add: getAuthToken_def login_try_def cache_get_def exampleParseInt_def Let_def)
  from getAuthToken_login_ttl [OF miss ok] show ?thesis
    by (auto simp: js_sub_def exampleParseInt_def)
qed

text \<open>
  Claim C9. An unauthorized (401) answer of the login endpoint makes \<open>getAuthToken\<close>
  fail with the invalid-credentials error. A malformed answer (the expiry is missing,
  or it is not positive) throws its own error inside the \<^verbatim>\<open>try\<close> block, but the
  \<^verbatim>\<open>catch\<close> block of the same function replaces it: what the caller gets is the error
  of a network failure or of a 500 answer, so the malformed response is not
  distinguishable from them.
\<close>

theorem getAuthToken_malformed_response_error:
  "fst (getAuthToken exampleParseInt 0 (Resolved (JObj [(''token'', JStr ''abc'')])) Map.empty)
     = Inl FailedToObtainToken
   \<and> fst (getAuthToken exampleParseInt 0
            (Resolved (JObj [(''token'', JStr ''abc''), (''expiresIn'', JNum (- 5))])) Map.empty)
     = Inl FailedToObtainToken
   \<and> fst (getAuthToken exampleParseInt 0 NoResponse Map.empty) = Inl FailedToObtainToken
   \<and> fst (getAuthToken exampleParseInt 0 (ErrorStatus 500) Map.empty) = Inl FailedToObtainToken
   \<and> fst (getAuthToken exampleParseInt 0 (ErrorStatus 401) Map.empty) = Inl LoginFailedInvalidCredentials"
  by (simp add: getAuthToken_def login_try_def login_catch_def cache_get_def exampleParseInt_def)

text \<open>
  Claim C10. Whenever \<open>getAuthToken\<close> fails, the cache is left exactly as it was
  before the call; the cache changes only when a login request was made, resolved,
  and the function returns its token.
\<close>

theorem getAuthToken_failure_keeps_cache:
  assumes "getAuthToken parseInt10 now reply c = (r, c')"
  shows "((\<exists>e. r = Inl e) \<longrightarrow> c' = c) \<and>
         (c' \<noteq> c \<longrightarrow> (\<exists>token body. r = Inr token \<and> reply = Resolved body \<and>
                          \<not> cached_token_valid now (cache_get c AUTH_TOKEN_CACHE_KEY)))"
  using assms
  by (auto simp: getAuthToken_def Let_def split: if_splits sum.splits dest: login_try_Inr)

text \<open>A 401 answer while an expired token is cached: the entry stays.\<close>

theorem getAuthToken_failure_keeps_cache_witness:
  "snd (getAuthToken exampleParseInt 0 (ErrorStatus 401) (Map.empty(AUTH_TOKEN_CACHE_KEY \<mapsto> (TokenData (JStr ''old'') (Finite 5), Finite 10))))
     = Map.empty(AUTH_TOKEN_CACHE_KEY \<mapsto> (TokenData (JStr ''old'') (Finite 5), Finite 10))"
  using getAuthToken_failure_keeps_cache [of exampleParseInt 0 "ErrorStatus 401"
      "Map.empty(AUTH_TOKEN_CACHE_KEY \<mapsto> (TokenData (JStr ''old'') (Finite 5), Finite 10))"
      "Inl LoginFailedInvalidCredentials"
      "snd (getAuthToken exampleParseInt 0 (ErrorStatus 401) (Map.empty(AUTH_TOKEN_CACHE_KEY \<mapsto> (TokenData (JStr ''old'') (Finite 5), Finite 10))))"]
  by (simp add: getAuthToken_def login_try_def login_catch_def cache_get_def js_gt_def
      TOKEN_REFRESH_BUFFER_def exampleParseInt_def)

section \<open>Properties of the pollution aggregator\<close>

text \<open>The total of the result is the sum of the totals of the countries, added in the
  order of the countries.\<close>

lemma aggregate_total:
  "snd (aggregate rs (allCities, t)) = foldl js_add t (map snd rs)"
  by (induction rs arbitrary: allCities t) auto

text \<open>The two branches of the per-country callback: with a list of results the total is
  the reported number of pages times the limit; without one it is the number of pages
  itself.\<close>

lemma fetchCountry_total_with_results:
  assumes "code \<in> set AVAILABLE_COUNTRIES"
    and "pollutionApi code pg lmt authToken = Resolved (Some body)"
    and "results body = Some rs" and "meta body = Some m"
  shows "map_option snd (fetchCountry pollutionApi authToken pg lmt code)
           = Some (js_mul (totalPages m) (Finite lmt))"
  using assms by (simp add: fetchCountry_def Let_def)

lemma fetchCountry_total_without_results:
  assumes "code \<in> set AVAILABLE_COUNTRIES"
    and "pollutionApi code pg lmt authToken = Resolved (Some body)"
    and "results body = None" and "meta body = Some m"
  shows "map_option snd (fetchCountry pollutionApi authToken pg lmt code)
           = Some (orZero (totalPages m))"
  using assms by (simp add: fetchCountry_def Let_def)

text \<open>
  Claim C6. Each queried country should contribute its reported number of pages
  multiplied by the limit. For a country whose answer has no \<^verbatim>\<open>results\<close> the code
  contributes \<^verbatim>\<open>meta.totalPages || 0\<close>, not multiplied: with 3 pages and limit 10 the
  call succeeds with total 3, where the branch for an answer with a (here empty) list
  of results gives 30.
\<close>

theorem fetchPollutionData_total_without_results:
  "map_sum id total
     (fst (fetchPollutionData exampleParseInt 0
             exampleLogin Map.empty
             (constantApi \<lparr>meta = Some \<lparr>totalPages = Finite 3\<rparr>, results = None\<rparr>)
             (Some ''PL'') (Some 1) (Some 10)))
     = Inr (Finite 3)
   \<and> map_sum id total
     (fst (fetchPollutionData exampleParseInt 0
             exampleLogin Map.empty
             (constantApi \<lparr>meta = Some \<lparr>totalPages = Finite 3\<rparr>, results = Some []\<rparr>)
             (Some ''PL'') (Some 1) (Some 10)))
     = Inr (Finite 30)"
  by (simp add: fetchPollutionData_def getAuthToken_def login_try_def cache_get_def
      withDefault_def fetchCountry_def AVAILABLE_COUNTRIES_def toUpperCase_def toUpperChar_def
      orZero_def js_sub_def TOKEN_REFRESH_BUFFER_def exampleParseInt_def exampleLogin_def
      constantApi_def Let_def)

text \<open>Claim C7 as stated fails: with \<^verbatim>\<open>page\<close> and \<^verbatim>\<open>limit\<close> omitted the limit of the
  result is not 1.\<close>

theorem fetchPollutionData_default_limit_counterexample:
  "map_sum id limit
     (fst (fetchPollutionData exampleParseInt 0
             exampleLogin Map.empty
             (constantApi \<lparr>meta = Some \<lparr>totalPages = Finite 3\<rparr>, results = Some []\<rparr>)
             (Some ''PL'') None None))
     \<noteq> Inr 1"
  by (simp add: fetchPollutionData_def getAuthToken_def login_try_def cache_get_def
      withDefault_def fetchCountry_def AVAILABLE_COUNTRIES_def toUpperCase_def toUpperChar_def
      orZero_def js_sub_def TOKEN_REFRESH_BUFFER_def exampleParseInt_def exampleLogin_def
      constantApi_def Let_def)

text \<open>
  Claim C7, amended. When the \<^verbatim>\<open>page\<close> and \<^verbatim>\<open>limit\<close> arguments are omitted,
  \<open>fetchPollutionData\<close> behaves as it does with page 1 and limit 10.
\<close>

theorem fetchPollutionData_defaults:
  "fetchPollutionData parseInt10 now loginReply c pollutionApi countryCode None None
     = fetchPollutionData parseInt10 now loginReply c pollutionApi countryCode (Some 1) (Some 10)"
  by (simp add: fetchPollutionData_def withDefault_def)

theorem fetchPollutionData_defaults_witness:
  "map_sum id (\<lambda>r. (page r, limit r))
     (fst (fetchPollutionData exampleParseInt 0
             exampleLogin Map.empty
             (constantApi \<lparr>meta = Some \<lparr>totalPages = Finite 3\<rparr>, results = Some []\<rparr>)
             (Some ''PL'') None None))
     = Inr (1, 10)"
  using fetchPollutionData_defaults [of exampleParseInt 0
      exampleLogin Map.empty
      "constantApi \<lparr>meta = Some \<lparr>totalPages = Finite 3\<rparr>, results = Some []\<rparr>"
      "Some ''PL''"]
  by (simp add: fetchPollutionData_def getAuthToken_def login_try_def cache_get_def
      withDefault_def fetchCountry_def AVAILABLE_COUNTRIES_def toUpperCase_def toUpperChar_def
      orZero_def js_sub_def TOKEN_REFRESH_BUFFER_def exampleParseInt_def exampleLogin_def
      constantApi_def Let_def)

text \<open>The page and the limit of a result are the arguments, or their defaults.\<close>

lemma fetchPollutionData_page_limit:
  assumes "fetchPollutionData parseInt10 now loginReply c pollutionApi countryCode pageArg limitArg
             = (Inr r, c')"
  shows "page r = withDefault 1 pageArg \<and> limit r = withDefault 10 limitArg"
  using assms
  by (auto simp: fetchPollutionData_def Let_def split: prod.splits sum.splits option.splits)

section \<open>Properties of the result assembler\<close>

subsection \<open>Numbers and the comparison function\<close>

lemma js_gt_trans: "js_gt a b \<Longrightarrow> js_gt b c \<Longrightarrow> js_gt a c"
  by (cases a; cases b; cases c) (auto simp: js_gt_def)

lemma js_sub_positive:
  assumes "\<not> isNaN a" and "\<not> isNaN b" and "a \<noteq> b"
  shows "js_gt (js_sub b a) (Finite 0) = js_gt b a"
  using assms by (cases a; cases b) (auto simp: js_gt_def js_sub_def)

lemma js_gt_total:
  assumes "\<not> isNaN a" and "\<not> isNaN b" and "a \<noteq> b" and "\<not> js_gt b a"
  shows "js_gt a b"
  using assms by (cases a; cases b) (auto simp: js_gt_def)

lemma js_strict_neq_iff: "\<not> isNaN a \<Longrightarrow> \<not> isNaN b \<Longrightarrow> js_strict_neq b a = (a \<noteq> b)"
  by (cases a; cases b) auto

lemma compareCities_positive:
  assumes "\<not> isNaN (cityPollution x)" and "\<not> isNaN (cityPollution y)"
  shows "js_gt (compareCities lc x y) (Finite 0)
           = (js_gt (cityPollution y) (cityPollution x)
              \<or> (cityPollution y = cityPollution x \<and> 0 < lc (name x) (name y)))"
proof (cases "cityPollution x = cityPollution y")
  case True
  with assms show ?thesis
    by (cases "cityPollution y") (auto simp: compareCities_def js_strict_neq_iff js_gt_def)
next
  case False
  with assms show ?thesis
    by (auto simp: compareCities_def js_strict_neq_iff js_sub_positive)
qed

lemma cityBefore_swap:
  assumes "\<not> isNaN (cityPollution x)" and "\<not> isNaN (cityPollution y)"
    and "consistentOn lc N" and "name x \<in> N" and "name y \<in> N"
    and "js_gt (compareCities lc x y) (Finite 0)"
  shows "cityBefore lc y x"
  using assms unfolding compareCities_positive [OF assms(1,2)] cityBefore_def consistentOn_def
  by blast

lemma cityBefore_keep:
  assumes "\<not> isNaN (cityPollution x)" and "\<not> isNaN (cityPollution y)"
    and "\<not> js_gt (compareCities lc x y) (Finite 0)"
  shows "cityBefore lc x y"
proof (cases "cityPollution x = cityPollution y")
  case True
  with assms show ?thesis
    unfolding compareCities_positive [OF assms(1,2)] cityBefore_def by auto
next
  case False
  with assms have "\<not> js_gt (cityPollution y) (cityPollution x)"
    unfolding compareCities_positive [OF assms(1,2)] by blast
  with js_gt_total [OF assms(1,2) False] show ?thesis
    by (simp add: cityBefore_def)
qed

lemma cityBefore_trans:
  assumes "consistentOn lc N" and "name x \<in> N" and "name y \<in> N" and "name z \<in> N"
    and "cityBefore lc x y" and "cityBefore lc y z"
  shows "cityBefore lc x z"
proof -
  from assms(1-4) have tr: "lc (name x) (name y) \<le> 0 \<Longrightarrow> lc (name y) (name z) \<le> 0
      \<Longrightarrow> lc (name x) (name z) \<le> 0"
    unfolding consistentOn_def by blast
  from assms(5,6) show ?thesis
    unfolding cityBefore_def using js_gt_trans tr by metis
qed

subsection \<open>Insertion keeps the elements and the order\<close>

lemma set_insertBy: "set (insertBy cmp x ys) = insert x (set ys)"
  by (induction ys) auto

lemma mset_insertBy: "mset (insertBy cmp x ys) = add_mset x (mset ys)"
  by (induction ys) auto

lemma mset_sortBy: "mset (sortBy cmp xs) = mset xs"
  by (induction xs) (auto simp: mset_insertBy)

lemma set_sortBy: "set (sortBy cmp xs) = set xs"
  by (induction xs) (auto simp: set_insertBy)

lemma sorted_insertBy:
  assumes "consistentOn lc N" and "\<not> isNaN (cityPollution x)" and "name x \<in> N"
    and "\<forall>y\<in>set ys. \<not> isNaN (cityPollution y) \<and> name y \<in> N"
    and "sorted_wrt (cityBefore lc) ys"
  shows "sorted_wrt (cityBefore lc) (insertBy (compareCities lc) x ys)"
  using assms(4,5)
proof (induction ys)
  case Nil
  then show ?case by simp
next
  case (Cons y ys)
  show ?case
  proof (cases "js_gt (compareCities lc x y) (Finite 0)")
    case True
    from Cons.prems have y: "\<not> isNaN (cityPollution y)" "name y \<in> N" by auto
    from cityBefore_swap [OF assms(2) y(1) assms(1) assms(3) y(2) True]
    have "cityBefore lc y x" .
    with True Cons show ?thesis
      by (auto simp: set_insertBy)
  next
    case False
    from Cons.prems have y: "\<not> isNaN (cityPollution y)" "name y \<in> N" by auto
    from cityBefore_keep [OF assms(2) y(1) False] have xy: "cityBefore lc x y" .
    have "cityBefore lc x z" if "z \<in> set ys" for z
    proof -
      from that Cons.prems have "cityBefore lc y z" "name z \<in> N" by auto
      with cityBefore_trans [OF assms(1) assms(3) y(2) _ xy] show ?thesis by blast
    qed
    with False xy Cons.prems show ?thesis by auto
  qed
qed

text \<open>The comparison of letter names is consistent, and so is the comparison by code
  units.\<close>

lemma alphabeticCompare_le:
  "alphabeticCompare a b \<le> 0
     \<longleftrightarrow> toLowerCase a < toLowerCase b \<or> (toLowerCase a = toLowerCase b \<and> b \<le> a)"
  by (auto simp: alphabeticCompare_def)

lemma alphabeticCompare_consistent: "consistentOn alphabeticCompare N"
  unfolding consistentOn_def
proof (intro conjI ballI impI)
  fix a b
  assume "0 < alphabeticCompare a b"
  then have "\<not> alphabeticCompare a b \<le> 0" by simp
  then show "alphabeticCompare b a \<le> 0"
    unfolding alphabeticCompare_le by auto
next
  fix a b c
  assume "alphabeticCompare a b \<le> 0 \<and> alphabeticCompare b c \<le> 0"
  then show "alphabeticCompare a c \<le> 0"
    unfolding alphabeticCompare_le by auto
qed

lemma codeUnitCompare_consistent: "consistentOn codeUnitCompare N"
  by (auto simp: consistentOn_def codeUnitCompare_def split: if_splits)

text \<open>The example of the specification needs one comparison of names only, that of
  \<^verbatim>\<open>B\<close> with \<^verbatim>\<open>C\<close>.\<close>

lemma example_sorted:
  assumes "localeCompare ''B'' ''C'' < 0"
  shows "map name (sortCities localeCompare exampleCities) = [''B'', ''C'', ''A'']"
  using assms
  by (simp add: sortCities_def exampleCities_def compareCities_def js_sub_def js_gt_def)

text \<open>
  Claim C5 as stated fails. With the collation of Node the names \<^verbatim>\<open>aa\<close> and \<^verbatim>\<open>Bb\<close> of
  two cities with the same pollution come out as \<^verbatim>\<open>aa\<close>, \<^verbatim>\<open>Bb\<close>, while \<^verbatim>\<open>Bb\<close> is the
  lexicographically smaller one (\<^verbatim>\<open>B\<close> is the code unit 66, \<^verbatim>\<open>a\<close> is 97): the output
  is not in ascending lexicographic order of the names.
\<close>

theorem sortCities_lexicographic_counterexample:
  "map name (sortCities alphabeticCompare tiedCities) = [''aa'', ''Bb'']
   \<and> ''Bb'' < ''aa''
   \<and> \<not> sorted_wrt (cityBefore codeUnitCompare) (sortCities alphabeticCompare tiedCities)"
  by (simp add: sortCities_def tiedCities_def compareCities_def alphabeticCompare_def
      codeUnitCompare_def cityBefore_def toLowerCase_def toLowerChar_def js_sub_def js_gt_def
      less_char_def less_eq_char_def)

text \<open>
  Claim C5, amended. For every list of enriched cities (their pollution values are
  numbers, not NaN, as the normalizer guarantees; \<^verbatim>\<open>localeCompare\<close> is consistent on
  their names), the sorted list is a rearrangement of the input that is ordered by
  descending pollution, with ties in the ascending order of the names under
  \<^verbatim>\<open>localeCompare\<close>, the collation of the host; and the cities \<^verbatim>\<open>{A,5}\<close>, \<^verbatim>\<open>{B,9}\<close>,
  \<^verbatim>\<open>{C,9}\<close> come out in the order B, C, A whenever that collation puts \<^verbatim>\<open>B\<close> before
  \<^verbatim>\<open>C\<close>.
\<close>

theorem sortCities_sorted:
  assumes "\<forall>c\<in>set cs. \<not> isNaN (cityPollution c)"
    and "consistentOn localeCompare (name ` set cs)"
  shows "sorted_wrt (cityBefore localeCompare) (sortCities localeCompare cs)
         \<and> mset (sortCities localeCompare cs) = mset cs
         \<and> (localeCompare ''B'' ''C'' < 0 \<longrightarrow>
              map name (sortCities localeCompare exampleCities) = [''B'', ''C'', ''A''])"
proof -
  have "sorted_wrt (cityBefore localeCompare) (sortBy (compareCities localeCompare) xs)"
    if "set xs \<subseteq> set cs" for xs
    using that
  proof (induction xs)
    case Nil
    then show ?case by simp
  next
    case (Cons x xs)
    from Cons.prems assms(1) have x: "\<not> isNaN (cityPollution x)" "name x \<in> name ` set cs"
      by auto
    from Cons.prems assms(1)
    have rest: "\<forall>y\<in>set (sortBy (compareCities localeCompare) xs).
                  \<not> isNaN (cityPollution y) \<and> name y \<in> name ` set cs"
      by (auto simp: set_sortBy)
    from Cons have "sorted_wrt (cityBefore localeCompare) (sortBy (compareCities localeCompare) xs)"
      by simp
    from sorted_insertBy [OF assms(2) x rest this] show ?case by simp
  qed
  then have "sorted_wrt (cityBefore localeCompare) (sortCities localeCompare cs)"
    by (simp add: sortCities_def)
  with example_sorted [of localeCompare] show ?thesis
    by (simp add: sortCities_def mset_sortBy)
qed

text \<open>The example of the specification, with the collation of Node on letters.\<close>

theorem sortCities_sorted_witness:
  "sorted_wrt (cityBefore alphabeticCompare) (sortCities alphabeticCompare exampleCities)
   \<and> mset (sortCities alphabeticCompare exampleCities) = mset exampleCities
   \<and> map name (sortCities alphabeticCompare exampleCities) = [''B'', ''C'', ''A'']"
proof -
  have n: "\<forall>c\<in>set exampleCities. \<not> isNaN (cityPollution c)"
    by (simp add: exampleCities_def)
  have c: "consistentOn alphabeticCompare (name ` set exampleCities)"
    by (rule alphabeticCompare_consistent)
  have bc: "alphabeticCompare ''B'' ''C'' < 0"
    by (simp add: alphabeticCompare_def toLowerCase_def toLowerChar_def less_char_def
        less_eq_char_def)
  from sortCities_sorted [OF n c] bc show ?thesis by simp
qed

section \<open>Properties of the description resolver\<close>

subsection \<open>One query\<close>






subsection \<open>The loop\<close>




subsection \<open>The acceptance policy\<close>

text \<open>Claim C2 as stated fails: a description that contains \<^verbatim>\<open>(disambiguation)\<close> and
  none of the listed keywords is accepted when the country and the name occur in it.\<close>

theorem accepted_disambiguation_counterexample:
  "includesStr ''Warsaw (disambiguation) of Poland'' ''(disambiguation)''
   \<and> accepted ''Warsaw'' ''PL'' ''Warsaw''
        \<lparr>description = ''Warsaw (disambiguation) of Poland'', title = ''Warsaw''\<rparr>"
  by (simp add: accepted_def isCountryRelevant_def isContentRelevantToQuery_def
      isStrongNegativeMatch_def strongNegativeKeywords_def lowerCountryTerms_def countryNames_def
      toLowerCase_def toUpperCase_def toLowerChar_def toUpperChar_def less_eq_char_def)

text \<open>
  Claim C2, amended. If the lowercased description or the lowercased title contains
  one of the listed negative keywords (among them \<^verbatim>\<open>disambiguation page\<close>,
  \<^verbatim>\<open>may refer to:\<close> and \<^verbatim>\<open>(disambiguation)\<close> after \<^verbatim>\<open>area\<close>, \<^verbatim>\<open>site\<close>, \<^verbatim>\<open>point\<close>,
  \<^verbatim>\<open>alpha\<close>, \<^verbatim>\<open>number\<close>, \<^verbatim>\<open>b\<close>, \<^verbatim>\<open>c\<close>, \<^verbatim>\<open>d\<close> or \<^verbatim>\<open>e\<close> and a space), the pair is
  rejected, whatever the country-relevance and content-relevance checks say.
\<close>

theorem accepted_rejects_negative_keyword:
  assumes "keyword \<in> set strongNegativeKeywords"
    and "includesStr (toLowerCase (description w)) keyword
         \<or> includesStr (toLowerCase (title w)) keyword"
  shows "\<not> accepted origName countryName lookup w"
  using assms by (auto simp: accepted_def isStrongNegativeMatch_def list_ex_iff Let_def)

theorem accepted_rejects_negative_keyword_witness:
  "\<not> accepted ''Warsaw'' ''PL'' ''Warsaw''
        \<lparr>description = ''Warsaw area (disambiguation) of Poland'', title = ''Warsaw''\<rparr>"
proof -
  have k: "''area (disambiguation)'' \<in> set strongNegativeKeywords"
    by (simp add: strongNegativeKeywords_def)
  have i: "includesStr (toLowerCase (description
              \<lparr>description = ''Warsaw area (disambiguation) of Poland'', title = ''Warsaw''\<rparr>))
              ''area (disambiguation)''
          \<or> includesStr (toLowerCase (title
              \<lparr>description = ''Warsaw area (disambiguation) of Poland'', title = ''Warsaw''\<rparr>))
              ''area (disambiguation)''"
    by (simp add: toLowerCase_def toLowerChar_def less_eq_char_def)
  from accepted_rejects_negative_keyword [OF k i] show ?thesis .
qed

section \<open>Properties of the city normalizer\<close>

text \<open>A falsy record (\<^verbatim>\<open>null\<close>, \<^verbatim>\<open>undefined\<close>, \<^verbatim>\<open>false\<close>, \<^verbatim>\<open>0\<close>, the empty string) has no
  properties.\<close>

lemma falsy_no_name: "\<not> truthy data \<Longrightarrow> getProp data k = JUndefined"
  by (cases data) auto

text \<open>The tests of the code in the words of the statements: a string trims to the empty
  string when it is blank, and the regular expression \<^verbatim>\<open>/^[0-9]+$/\<close> matches the
  strings that are all digits.\<close>

lemma trim_Nil_iff: "trim s = [] \<longleftrightarrow> blank s"
proof
  assume "blank s"
  then have d: "dropWhile isSpace s = []" by (simp add: blank_def)
  show "trim s = []" unfolding trim_def d by simp
next
  assume t: "trim s = []"
  show "blank s"
  proof (cases "dropWhile isSpace s = []")
    case True
    then show ?thesis by (simp add: blank_def)
  next
    case False
    then have "\<not> isSpace (hd (dropWhile isSpace s))"
      using hd_dropWhile [of isSpace s] by blast
    moreover from False have "hd (dropWhile isSpace s) \<in> set (rev (dropWhile isSpace s))"
      by simp
    ultimately have "dropWhile isSpace (rev (dropWhile isSpace s)) \<noteq> []"
      unfolding dropWhile_eq_Nil_conv by blast
    with t show ?thesis by (simp add: trim_def)
  qed
qed

lemma isDigit_iff: "isDigit c \<longleftrightarrow> c \<in> set ''0123456789''"
proof -
  have "isDigit c \<longleftrightarrow> (of_char c :: nat) \<in> {48, 49, 50, 51, 52, 53, 54, 55, 56, 57}"
    unfolding isDigit_def less_eq_char_def insert_iff empty_iff by simp arith
  also have "\<dots> \<longleftrightarrow> c \<in> set ''0123456789''"
    unfolding set_simps insert_iff empty_iff of_char_eq_iff [of c, where ?'a = nat, symmetric]
    by simp
  finally show ?thesis .
qed

lemma allDigits_iff: "allDigits s \<longleftrightarrow> digitsOnly s"
  unfolding allDigits_def digitsOnly_def list_all_iff subset_iff isDigit_iff by blast

text \<open>
  The outcome of the normalizer as one case distinction on the raw record: \<^verbatim>\<open>null\<close>
  when the name or the country is missing or blank; otherwise the exception of
  \<^verbatim>\<open>parseFloat\<close> when the pollution has no string; otherwise \<^verbatim>\<open>null\<close> when the pollution
  does not parse to a non-negative float or the lookup name is empty, all digits or of
  length at most 1; otherwise the record.
\<close>

lemma normalizeCityData_cases:
  "normalizeCityData upperCase lowerCase parseNumber data =
     (if missingOrBlank (getProp data ''name'') \<or> missingOrBlank (getProp data ''country'')
      then Inr None
      else if toStringThrows (getProp data ''pollution'') then Inl JsTypeError
      else if \<not> nonNegativeFloat (parseNumber (getProp data ''pollution''))
         \<or> deriveLookupName upperCase lowerCase (trim (asString (getProp data ''name''))) = []
         \<or> digitsOnly (deriveLookupName upperCase lowerCase (trim (asString (getProp data ''name''))))
         \<or> length (deriveLookupName upperCase lowerCase (trim (asString (getProp data ''name'')))) \<le> 1
      then Inr None
      else Inr (Some \<lparr>originalName = trim (asString (getProp data ''name'')),
                 lookupName = deriveLookupName upperCase lowerCase (trim (asString (getProp data ''name''))),
                 country = trim (asString (getProp data ''country'')),
                 pollution = parseNumber (getProp data ''pollution'')\<rparr>))"
proof (cases "truthy data")
  case False
  then show ?thesis
    by (simp add: normalizeCityData_def missingOrBlank_def falsy_no_name)
next
  case True
  then show ?thesis
    by (cases "getProp data ''name''"; cases "getProp data ''country''")
       (simp_all add: normalizeCityData_def missingOrBlank_def asString_def nonNegativeFloat_def
          Let_def parseFloat_def trim_Nil_iff allDigits_iff)
qed

text \<open>The normalizer throws exactly on the records with a name and a country whose
  pollution has no string.\<close>

lemma normalizeCityData_exception_iff:
  "(\<exists>e. normalizeCityData upperCase lowerCase parseNumber data = Inl e)
     \<longleftrightarrow> \<not> missingOrBlank (getProp data ''name'')
         \<and> \<not> missingOrBlank (getProp data ''country'')
         \<and> toStringThrows (getProp data ''pollution'')"
  unfolding normalizeCityData_cases by simp

text \<open>Evaluations used in the examples.\<close>

lemma trim_examples:
  "trim ''Warsaw'' = ''Warsaw''"
  "trim ''PL'' = ''PL''"
  "trim ''wArSAW (Capital)'' = ''wArSAW (Capital)''"
  "trim ''New york'' = ''New york''"
  "trim ''Ssa'' = ''Ssa''"
  "trim ''SSa'' = ''SSa''"
  "trim (''new'' @ [CHR 0x09] @ ''york'') = ''new'' @ [CHR 0x09] @ ''york''"
  "trim [CHR 0xDF, CHR ''a''] = [CHR 0xDF, CHR ''a'']"
  "trim ''A'' = ''A''"
  "trim ''ES'' = ''ES''"
  "trim ''  '' = []"
  by code_simp+

lemma deriveLookupName_examples:
  "deriveLookupName latin1UpperCase latin1LowerCase ''Warsaw'' = ''Warsaw''"
  "deriveLookupName latin1UpperCase latin1LowerCase ''wArSAW (Capital)'' = ''Warsaw''"
  "deriveLookupName latin1UpperCase latin1LowerCase (''new'' @ [CHR 0x09] @ ''york'') = ''New york''"
  "deriveLookupName latin1UpperCase latin1LowerCase ''New york'' = ''New York''"
  "deriveLookupName latin1UpperCase latin1LowerCase [CHR 0xDF, CHR ''a''] = ''SSa''"
  "deriveLookupName latin1UpperCase latin1LowerCase ''SSa'' = ''Ssa''"
  "deriveLookupName latin1UpperCase latin1LowerCase ''A'' = ''A''"
  by code_simp+

text \<open>
  Claim C3. For every raw record, \<open>normalizeCityData\<close> returns \<^verbatim>\<open>null\<close> exactly when the
  name is missing or blank, the country is missing or blank, the pollution does not
  parse to a non-negative float, or the derived lookup name is empty, all digits or of
  length at most 1; otherwise it returns the record; and it never throws. The code
  does not do that: on the record
  \<^verbatim>\<open>{"name": "Warsaw", "country": "PL", "pollution": {"toString": 1}}\<close> the call
  \<^verbatim>\<open>parseFloat(data.pollution)\<close> throws a TypeError, whatever the case mappings and the
  number parsing are, and the exception leaves the function. On the record with the
  pollution \<^verbatim>\<open>{}\<close>, which does not parse to a number either, the function returns
  \<^verbatim>\<open>null\<close>, as its documentation says of every invalid record; so it does on a blank
  name, on a negative pollution and on the one-letter name \<^verbatim>\<open>A\<close>; and the record
  \<^verbatim>\<open>{"name": "wArSAW (Capital)", "country": "PL", "pollution": "42.5"}\<close> is accepted.
\<close>

theorem normalizeCityData_throws:
  "normalizeCityData upperCase lowerCase parseNumber
     (JObj [(''name'', JStr ''Warsaw''), (''country'', JStr ''PL''),
            (''pollution'', JObj [(''toString'', JNum 1)])])
     = Inl JsTypeError
   \<and> normalizeCityData latin1UpperCase latin1LowerCase exampleParseFloat
     (JObj [(''name'', JStr ''Warsaw''), (''country'', JStr ''PL''), (''pollution'', JObj [])])
     = Inr None
   \<and> normalizeCityData latin1UpperCase latin1LowerCase exampleParseFloat
     (JObj [(''name'', JStr ''  ''), (''country'', JStr ''PL''), (''pollution'', JNum 5)])
     = Inr None
   \<and> normalizeCityData latin1UpperCase latin1LowerCase exampleParseFloat
     (JObj [(''name'', JStr ''Warsaw''), (''country'', JStr ''PL''), (''pollution'', JNum (- 1))])
     = Inr None
   \<and> normalizeCityData latin1UpperCase latin1LowerCase exampleParseFloat
     (JObj [(''name'', JStr ''A''), (''country'', JStr ''ES''), (''pollution'', JStr ''42.5'')])
     = Inr None
   \<and> normalizeCityData latin1UpperCase latin1LowerCase exampleParseFloat
     (JObj [(''name'', JStr ''wArSAW (Capital)''), (''country'', JStr ''PL''),
            (''pollution'', JStr ''42.5'')])
     = Inr (Some \<lparr>originalName = ''wArSAW (Capital)'', lookupName = ''Warsaw'',
                   country = ''PL'', pollution = Finite 42.5\<rparr>)"
  using trim_examples deriveLookupName_examples
  by (simp add: normalizeCityData_def parseFloat_def exampleParseFloat_def allDigits_def
        isDigit_def less_eq_char_def)

section \<open>Idempotence of the lookup name\<close>

subsection \<open>Characters\<close>














subsection \<open>Trimming\<close>






subsection \<open>Removing the parenthesized segments\<close>














subsection \<open>Capitalizing the words\<close>




lemma joinSpace_Nil_Cons: "ws \<noteq> [] \<Longrightarrow> joinSpace ([] # ws) = CHR '' '' # joinSpace ws"
  by (cases ws) auto












subsection \<open>What the later steps keep\<close>



















subsection \<open>The derivation applied twice\<close>





end
